theory Spec2Isabelle
  imports Main
begin

section \<open>Data model\<close>

text \<open>
  The tag classifier works on tag strings. A tag is modelled as a \<open>string\<close>, one character
  for each code unit of the tag. Every character that a pattern or a special tag of the
  Docker recognizer mentions is ASCII, so a code unit outside ASCII only ever fails a
  test, and the characters outside ASCII stand for these code units.
\<close>

datatype VersionType = SEMVER | CALVER | DATE_BASED | DOCKER | AUTO

record VersionInfo =
  major :: string
  minor :: string
  patch :: string
  prerelease :: string
  build :: string

text \<open>\<open>format\<close> is \<open>None\<close> where the result carries no scheme.\<close>

record ParseResult =
  isValid :: bool
  version :: string
  info :: VersionInfo
  format :: "VersionType option"

section \<open>Base behaviour shared by the recognizers\<close>

text \<open>
  The base class \<open>BaseParser\<close> (module \<open>./base\<close>) is not part of the sources. Its two
  helpers are described in section 4.1 of the specification. The recognizer's format and
  its \<open>reconstructVersion\<close> hook are arguments of the model.
\<close>

definition emptyVersionInfo :: VersionInfo where
  "emptyVersionInfo =
     \<lparr>major = [], minor = [], patch = [], prerelease = [], build = []\<rparr>"

text \<open>
  Modelled from the spec: \<open>BaseParser.createSuccessResult(tag, info)\<close>, missing from the
  sources, builds a result with \<open>isValid = true\<close>, the recognizer's own format and
  \<open>version = reconstructVersion(info, tag)\<close>.
\<close>

definition createSuccessResult ::
  "VersionType \<Rightarrow> (VersionInfo \<Rightarrow> string \<Rightarrow> string) \<Rightarrow> string \<Rightarrow> VersionInfo \<Rightarrow> ParseResult" where
  "createSuccessResult fmt reconstruct tag i =
     \<lparr>isValid = True, version = reconstruct i tag, info = i, format = Some fmt\<rparr>"

text \<open>
  Modelled from the spec: \<open>BaseParser.createFailedResult(tag)\<close>, missing from the sources,
  builds a result with \<open>isValid = false\<close>, an empty format, an all-empty \<open>VersionInfo\<close> and
  the original tag unchanged as \<open>version\<close>.
\<close>

definition createFailedResult :: "string \<Rightarrow> ParseResult" where
  "createFailedResult tag =
     \<lparr>isValid = False, version = tag, info = emptyVersionInfo, format = None\<rparr>"

section \<open>String operations\<close>

text \<open>
  \<open>toLowerCase\<close>: the letters \<open>A\<close> to \<open>Z\<close> go to \<open>a\<close> to \<open>z\<close>; every other code unit
  is kept. (No code unit outside ASCII is lowered to a letter that occurs in a special
  tag, so membership in \<open>specialTags\<close> is decided by this ASCII part alone.)
\<close>

definition toLowerCase_char :: "char \<Rightarrow> char" where
  "toLowerCase_char c =
     (case map_of (zip ''ABCDEFGHIJKLMNOPQRSTUVWXYZ'' ''abcdefghijklmnopqrstuvwxyz'') c of
        Some l \<Rightarrow> l
      | None \<Rightarrow> c)"

definition toLowerCase :: "string \<Rightarrow> string" where
  "toLowerCase s = map toLowerCase_char s"

text \<open>\<open>indexOf\<close>: the index of the first occurrence, \<open>-1\<close> when there is none.\<close>

primrec indexOf :: "string \<Rightarrow> char \<Rightarrow> int" where
  "indexOf [] c = - 1"
| "indexOf (x # xs) c =
     (if x = c then 0
      else (let i = indexOf xs c in if i = - 1 then - 1 else i + 1))"

text \<open>
  \<open>slice(start, end)\<close> and \<open>slice(start)\<close>, for the indices the recognizer passes:
  \<open>0 \<le> start \<le> end \<le> length s\<close>.
\<close>

definition slice :: "string \<Rightarrow> int \<Rightarrow> int \<Rightarrow> string" where
  "slice s start end = take (nat end - nat start) (drop (nat start) s)"

definition slice_from :: "string \<Rightarrow> int \<Rightarrow> string" where
  "slice_from s start = drop (nat start) s"

section \<open>Regular expressions\<close>

text \<open>
  A pattern is modelled the way the language defines its matching: a matcher takes the
  continuation that matches the rest of the pattern and the remaining input, and
  backtracks into its alternatives, greedy choice first, when the continuation fails.
\<close>

definition is_digit :: "char \<Rightarrow> bool" where
  "is_digit c = (c \<in> set ''0123456789'')"

definition is_word :: "char \<Rightarrow> bool" where
  "is_word c =
     (c \<in> set ''ABCDEFGHIJKLMNOPQRSTUVWXYZabcdefghijklmnopqrstuvwxyz0123456789_'')"

definition is_word_dot_dash :: "char \<Rightarrow> bool" where
  "is_word_dot_dash c = (is_word c \<or> c = CHR ''.'' \<or> c = CHR ''-'')"

text \<open>The pattern character \<open>v\<close> under the flag \<open>i\<close>.\<close>

definition is_v :: "char \<Rightarrow> bool" where
  "is_v c = (c = CHR ''v'' \<or> c = CHR ''V'')"

definition is_dot :: "char \<Rightarrow> bool" where
  "is_dot c = (c = CHR ''.'')"

definition is_dash :: "char \<Rightarrow> bool" where
  "is_dash c = (c = CHR ''-'')"

text \<open>\<open>$\<close>: the end of the input.\<close>

definition m_end :: "'r \<Rightarrow> string \<Rightarrow> 'r option" where
  "m_end r s = (if s = [] then Some r else None)"

text \<open>One character of a class.\<close>

definition m_char :: "(char \<Rightarrow> bool) \<Rightarrow> (string \<Rightarrow> 'r option) \<Rightarrow> string \<Rightarrow> 'r option" where
  "m_char P k s = (case s of [] \<Rightarrow> None | c # r \<Rightarrow> if P c then k r else None)"

text \<open>\<open>x?\<close>, greedy: with \<open>x\<close> first, without it when the rest fails.\<close>

definition m_opt ::
  "((string \<Rightarrow> 'r option) \<Rightarrow> string \<Rightarrow> 'r option) \<Rightarrow> (string \<Rightarrow> 'r option) \<Rightarrow> string \<Rightarrow> 'r option" where
  "m_opt m k s = (case m k s of Some x \<Rightarrow> Some x | None \<Rightarrow> k s)"

text \<open>
  \<open>(?:... (group) ...)?\<close>: an optional part that holds one capture group. The continuation
  receives the capture, \<open>None\<close> for a group that took no part in the match.
\<close>

definition m_opt_cap ::
  "((string \<Rightarrow> string \<Rightarrow> 'r option) \<Rightarrow> string \<Rightarrow> 'r option) \<Rightarrow>
   (string option \<Rightarrow> string \<Rightarrow> 'r option) \<Rightarrow> string \<Rightarrow> 'r option" where
  "m_opt_cap m k s =
     (case m (\<lambda>cap. k (Some cap)) s of Some x \<Rightarrow> Some x | None \<Rightarrow> k None s)"

text \<open>
  \<open>(x+)\<close> for a character class \<open>x\<close>: the longest run first, then each shorter one. The
  continuation receives the captured text.
\<close>

primrec m_star_cap ::
  "(char \<Rightarrow> bool) \<Rightarrow> (string \<Rightarrow> string \<Rightarrow> 'r option) \<Rightarrow> string \<Rightarrow> string \<Rightarrow> 'r option" where
  "m_star_cap P k acc [] = k acc []"
| "m_star_cap P k acc (c # r) =
     (if P c
      then (case m_star_cap P k (acc @ [c]) r of Some x \<Rightarrow> Some x | None \<Rightarrow> k acc (c # r))
      else k acc (c # r))"

definition m_plus_cap ::
  "(char \<Rightarrow> bool) \<Rightarrow> (string \<Rightarrow> string \<Rightarrow> 'r option) \<Rightarrow> string \<Rightarrow> 'r option" where
  "m_plus_cap P k s =
     (case s of [] \<Rightarrow> None | c # r \<Rightarrow> if P c then m_star_cap P k [c] r else None)"

text \<open>\<open>x{0,n}\<close> for a character class \<open>x\<close>, greedy.\<close>

primrec m_upto ::
  "nat \<Rightarrow> (char \<Rightarrow> bool) \<Rightarrow> (string \<Rightarrow> 'r option) \<Rightarrow> string \<Rightarrow> 'r option" where
  "m_upto 0 P k s = k s"
| "m_upto (Suc n) P k s =
     (case s of
        [] \<Rightarrow> k s
      | c # r \<Rightarrow>
          if P c then (case m_upto n P k r of Some x \<Rightarrow> Some x | None \<Rightarrow> k s) else k s)"

text \<open>\<open>test\<close> of a pattern that is anchored at both ends.\<close>

definition test :: "(string \<Rightarrow> 'r option) \<Rightarrow> string \<Rightarrow> bool" where
  "test pattern s = (pattern s \<noteq> None)"

section \<open>The Docker recognizer\<close>

definition specialTags :: "string list" where
  "specialTags =
     [''latest'', ''stable'', ''dev'', ''test'', ''prod'', ''production'', ''staging'']"

text \<open>
  \<open>/^v?(\d+)(?:\.(\d+))?(?:\.(\d+))?(?:-([\w.-]+))?$/i\<close>. A match returns the four
  capture groups.
\<close>

type_synonym captures = "string \<times> string option \<times> string option \<times> string option"

definition dotGroup :: "(string \<Rightarrow> string \<Rightarrow> 'r option) \<Rightarrow> string \<Rightarrow> 'r option" where
  "dotGroup k = m_char is_dot (m_plus_cap is_digit k)"

definition suffixGroup :: "(string \<Rightarrow> string \<Rightarrow> 'r option) \<Rightarrow> string \<Rightarrow> 'r option" where
  "suffixGroup k = m_char is_dash (m_plus_cap is_word_dot_dash k)"

definition dockerVersionPattern :: "string \<Rightarrow> captures option" where
  "dockerVersionPattern =
     m_opt (m_char is_v)
       (m_plus_cap is_digit (\<lambda>g1.
          m_opt_cap dotGroup (\<lambda>g2.
            m_opt_cap dotGroup (\<lambda>g3.
              m_opt_cap suffixGroup (\<lambda>g4.
                m_end (g1, g2, g3, g4))))))"

text \<open>\<open>/^[A-Za-z0-9_][A-Za-z0-9_.-]{0,127}$/\<close>\<close>

definition dockerTagPattern :: "string \<Rightarrow> unit option" where
  "dockerTagPattern = m_char is_word (m_upto 127 is_word_dot_dash (m_end ()))"

definition DockerParser_canParse :: "string \<Rightarrow> bool" where
  "DockerParser_canParse tag =
     (let lowerTag = toLowerCase tag
      in lowerTag \<in> set specialTags \<or> test dockerVersionPattern tag \<or> test dockerTagPattern tag)"

definition DockerParser_reconstructVersion :: "VersionInfo \<Rightarrow> string \<Rightarrow> string" where
  "DockerParser_reconstructVersion i originalTag =
     (let lowerTag = toLowerCase originalTag in
      if lowerTag \<in> set specialTags then originalTag
      else if major i = [] then
        (let dashIndex = indexOf originalTag CHR ''-''
         in if dashIndex = - 1 then originalTag else slice originalTag 0 dashIndex)
      else
        (let patch' = (if patch i = [] then ''0'' else patch i);
             version' = major i @ ''.'' @ minor i @ ''.'' @ patch'
         in if prerelease i \<noteq> [] then version' @ ''-'' @ prerelease i else version'))"

text \<open>An absent capture group is destructured to the empty string.\<close>

definition orEmpty :: "string option \<Rightarrow> string" where
  "orEmpty g = (case g of None \<Rightarrow> [] | Some s \<Rightarrow> s)"

definition DockerParser_parse :: "string \<Rightarrow> ParseResult" where
  "DockerParser_parse tag =
     (let lowerTag = toLowerCase tag in
      if lowerTag \<in> set specialTags then
        createSuccessResult DOCKER DockerParser_reconstructVersion tag
          \<lparr>major = [], minor = [], patch = [], prerelease = [], build = []\<rparr>
      else
        (case dockerVersionPattern tag of
           None \<Rightarrow>
             if \<not> test dockerTagPattern tag then createFailedResult tag
             else
               (let dashIndex = indexOf tag CHR ''-'';
                    remainder = (if dashIndex = - 1 then [] else slice_from tag (dashIndex + 1))
                in createSuccessResult DOCKER DockerParser_reconstructVersion tag
                     \<lparr>major = [], minor = [], patch = [], prerelease = remainder, build = []\<rparr>)
         | Some (g1, g2, g3, g4) \<Rightarrow>
             createSuccessResult DOCKER DockerParser_reconstructVersion tag
               \<lparr>major = g1, minor = orEmpty g2, patch = orEmpty g3,
                prerelease = orEmpty g4, build = []\<rparr>))"


text \<open>The recognizer as an object with the two operations every recognizer exposes.\<close>

record VersionParser =
  canParse :: "string \<Rightarrow> bool"
  parse :: "string \<Rightarrow> ParseResult"

definition DockerParser :: VersionParser where
  "DockerParser = \<lparr>canParse = DockerParser_canParse, parse = DockerParser_parse\<rparr>"

subsection \<open>The shape of version-like tags\<close>

text \<open>
  The tags \<open>v?MAJOR[.MINOR[.PATCH]][-SUFFIX]\<close>, written out: \<open>versionLikeTag v mj mn pt sf\<close>
  is the tag with prefix \<open>v\<close>, major \<open>mj\<close> and the optional parts \<open>mn\<close>, \<open>pt\<close> and \<open>sf\<close>.
\<close>

definition numeric :: "string \<Rightarrow> bool" where
  "numeric s = (s \<noteq> [] \<and> list_all is_digit s)"

definition suffixText :: "string \<Rightarrow> bool" where
  "suffixText s = (s \<noteq> [] \<and> list_all is_word_dot_dash s)"

definition opt_all :: "(string \<Rightarrow> bool) \<Rightarrow> string option \<Rightarrow> bool" where
  "opt_all P g = (case g of None \<Rightarrow> True | Some s \<Rightarrow> P s)"

definition dotted :: "string option \<Rightarrow> string" where
  "dotted g = (case g of None \<Rightarrow> [] | Some s \<Rightarrow> ''.'' @ s)"

definition dashed :: "string option \<Rightarrow> string" where
  "dashed g = (case g of None \<Rightarrow> [] | Some s \<Rightarrow> ''-'' @ s)"

definition versionLikeTag ::
  "string \<Rightarrow> string \<Rightarrow> string option \<Rightarrow> string option \<Rightarrow> string option \<Rightarrow> string" where
  "versionLikeTag v mj mn pt sf = v @ mj @ dotted mn @ dotted pt @ dashed sf"

text \<open>The rest of the version pattern after the first, second and third capture group.\<close>

definition afterPatch ::
  "string \<Rightarrow> string option \<Rightarrow> string option \<Rightarrow> string \<Rightarrow> captures option" where
  "afterPatch g1 g2 g3 = m_opt_cap suffixGroup (\<lambda>g4. m_end (g1, g2, g3, g4))"

definition afterMinor :: "string \<Rightarrow> string option \<Rightarrow> string \<Rightarrow> captures option" where
  "afterMinor g1 g2 = m_opt_cap dotGroup (\<lambda>g3. afterPatch g1 g2 g3)"

definition afterMajor :: "string \<Rightarrow> string \<Rightarrow> captures option" where
  "afterMajor g1 = m_opt_cap dotGroup (\<lambda>g2. afterMinor g1 g2)"

section \<open>The registry\<close>

text \<open>
  The registry (\<open>ParserRegistry\<close>, module \<open>./parsers\<close>) is not part of the sources; only
  its call \<open>parserRegistry.parse(tag, versionType)\<close> is. The Semver, Calver and DateBased
  recognizers are not part of the sources either, so the model of the registry takes
  them as arguments; the Docker recognizer is the one above.
\<close>

text \<open>
  Modelled from the spec: the list of recognizers of \<open>ParserRegistry\<close>, missing from the
  sources. Section 4.6: the registry holds the four recognizers in the fixed priority
  list Semver, Calver, DateBased, Docker, one for each scheme other than \<open>AUTO\<close>.
\<close>

definition ParserRegistry_parsers ::
  "VersionParser \<Rightarrow> VersionParser \<Rightarrow> VersionParser \<Rightarrow> (VersionType \<times> VersionParser) list" where
  "ParserRegistry_parsers semver calver dateBased =
     [(SEMVER, semver), (CALVER, calver), (DATE_BASED, dateBased), (DOCKER, DockerParser)]"

text \<open>
  Modelled from the spec: the auto-detection of \<open>ParserRegistry\<close>, missing from the
  sources. Section 4.6: iterate the recognizers in priority order, skip any whose
  \<open>canParse(tag)\<close> is false, invoke \<open>parse\<close> on the first that accepts and return its result
  immediately; if no recognizer's \<open>canParse\<close> succeeds, return the failure result of the
  tag.
\<close>

primrec autoDetect :: "VersionParser list \<Rightarrow> string \<Rightarrow> ParseResult" where
  "autoDetect [] tag = createFailedResult tag"
| "autoDetect (p # ps) tag = (if canParse p tag then parse p tag else autoDetect ps tag)"

text \<open>
  Modelled from the spec: \<open>ParserRegistry.parse(tag, requestedScheme)\<close>, missing from the
  sources. Section 4.6: for a concrete scheme invoke only that recognizer's \<open>parse\<close> and
  propagate its result, never falling back to another recognizer; for \<open>AUTO\<close> run the
  auto-detection.
\<close>

definition ParserRegistry_parse ::
  "VersionParser \<Rightarrow> VersionParser \<Rightarrow> VersionParser \<Rightarrow> string \<Rightarrow> VersionType \<Rightarrow> ParseResult" where
  "ParserRegistry_parse semver calver dateBased tag requested =
     (let parsers = ParserRegistry_parsers semver calver dateBased in
      if requested = AUTO then autoDetect (map snd parsers) tag
      else (case map_of parsers requested of
              Some p \<Rightarrow> parse p tag
            | None \<Rightarrow> createFailedResult tag))"

text \<open>
  Modelled from the spec: the contract of section 4.1 for a recognizer that is missing
  from the sources. Its \<open>parse\<close> builds its result with one of the two base helpers, so a
  result that is not valid is the failure result of the tag.
\<close>

definition followsBase :: "VersionParser \<Rightarrow> bool" where
  "followsBase p = (\<forall>tag. isValid (parse p tag) \<or> parse p tag = createFailedResult tag)"

section \<open>The numeric recognizers\<close>

text \<open>
  The Semver, Calver and DateBased recognizers are not part of the sources; of the first
  there are the tests. The theorems about the registry hold for any three recognizers.
  The recognizers of this section follow sections 4.2 to 4.4 of the specification and
  serve as the concrete recognizers where a closed statement needs them. The constants
  that the specification leaves open (section 9) are the fields of \<open>YearPolicy\<close>.
\<close>

record YearPolicy =
  twoDigitYearMin :: nat
  modernYearMin :: nat
  modernYearMax :: nat

definition digitsValue :: "string \<Rightarrow> nat" where
  "digitsValue s = foldl (\<lambda>n c. 10 * n + (of_char c - 48)) 0 s"

text \<open>The identifier characters \<open>[0-9A-Za-z-]\<close> and dot-separated non-empty identifiers.\<close>

definition is_ident_char :: "char \<Rightarrow> bool" where
  "is_ident_char c = ((is_word c \<and> c \<noteq> CHR ''_'') \<or> c = CHR ''-'')"

definition is_ident_or_dot :: "char \<Rightarrow> bool" where
  "is_ident_or_dot c = (is_ident_char c \<or> c = CHR ''.'')"

primrec splitOn :: "char \<Rightarrow> string \<Rightarrow> string list" where
  "splitOn d [] = [[]]"
| "splitOn d (x # xs) =
     (if x = d then [] # splitOn d xs
      else (case splitOn d xs of [] \<Rightarrow> [[x]] | p # ps \<Rightarrow> (x # p) # ps))"

definition identifiers :: "string \<Rightarrow> bool" where
  "identifiers s = list_all (\<lambda>i. i \<noteq> [] \<and> list_all is_ident_char i) (splitOn CHR ''.'' s)"

definition identifiersGroup ::
  "(char \<Rightarrow> bool) \<Rightarrow> (string \<Rightarrow> string \<Rightarrow> 'r option) \<Rightarrow> string \<Rightarrow> 'r option" where
  "identifiersGroup lead k =
     m_char lead
       (m_plus_cap is_ident_or_dot (\<lambda>cap rest. if identifiers cap then k cap rest else None))"

text \<open>
  Modelled from the spec: the pattern of the Semver recognizer, missing from the sources.
  Section 4.2: optional leading \<open>v\<close>, \<open>MAJOR.MINOR\<close> or \<open>MAJOR.MINOR.PATCH\<close>, optional
  \<open>-PRERELEASE\<close> (dot-separated alphanumeric or hyphen identifiers, non-empty), optional
  \<open>+BUILD\<close> (same character set). Section 4.3 reuses the prefix and the suffixes for
  Calver.
\<close>

type_synonym numericCaptures =
  "string \<times> string \<times> string option \<times> string option \<times> string option"

definition numericPattern :: "string \<Rightarrow> numericCaptures option" where
  "numericPattern =
     m_opt (m_char (\<lambda>c. c = CHR ''v''))
       (m_plus_cap is_digit (\<lambda>g1.
          m_char is_dot
            (m_plus_cap is_digit (\<lambda>g2.
               m_opt_cap dotGroup (\<lambda>g3.
                 m_opt_cap (identifiersGroup is_dash) (\<lambda>g4.
                   m_opt_cap (identifiersGroup (\<lambda>c. c = CHR ''+'')) (\<lambda>g5.
                     m_end (g1, g2, g3, g4, g5))))))))"

definition numericInfo :: "numericCaptures \<Rightarrow> VersionInfo" where
  "numericInfo c =
     (case c of (g1, g2, g3, g4, g5) \<Rightarrow>
        \<lparr>major = g1, minor = g2, patch = orEmpty g3, prerelease = orEmpty g4,
         build = orEmpty g5\<rparr>)"

text \<open>
  Modelled from the spec: \<open>reconstructVersion\<close> of the Semver and Calver recognizers,
  missing from the sources. Section 4.2: the reconstruction reproduces exactly the matched
  groups, with the \<open>v\<close> prefix of the original tag, does not invent a patch, and appends
  \<open>-PRERELEASE\<close> and \<open>+BUILD\<close> if present; section 4.3: Calver mirrors it.
\<close>

definition shapePreserving :: "VersionInfo \<Rightarrow> string \<Rightarrow> string" where
  "shapePreserving i originalTag =
     (if originalTag \<noteq> [] \<and> hd originalTag = CHR ''v'' then ''v'' else [])
     @ major i @ ''.'' @ minor i
     @ (if patch i = [] then [] else ''.'' @ patch i)
     @ (if prerelease i = [] then [] else ''-'' @ prerelease i)
     @ (if build i = [] then [] else ''+'' @ build i)"

text \<open>
  Modelled from the spec: \<open>SemverParser.canParse\<close> and \<open>SemverParser.parse\<close>, missing from
  the sources. Section 4.2: a candidate whose first part, interpreted as a year, is
  plausible as a calendar year (two digits of at least some threshold, or four digits in
  the 2000s range) is rejected, so that Calver takes precedence. The specification states
  this rule for tags of exactly two numeric parts; the tests of the recognizer, which are
  part of the sources, reject the three-part tags \<open>2024.01.15\<close> and \<open>24.01.15\<close> as well,
  so the rule is applied to both shapes here.
\<close>

definition semverYear :: "YearPolicy \<Rightarrow> string \<Rightarrow> bool" where
  "semverYear pol y =
     ((length y = 2 \<and> twoDigitYearMin pol \<le> digitsValue y)
      \<or> (length y = 4 \<and> 2000 \<le> digitsValue y \<and> digitsValue y \<le> 2999))"

definition SemverParser_canParse :: "YearPolicy \<Rightarrow> string \<Rightarrow> bool" where
  "SemverParser_canParse pol tag =
     (case numericPattern tag of
        None \<Rightarrow> False
      | Some (g1, g2, g3, g4, g5) \<Rightarrow> \<not> semverYear pol g1)"

definition SemverParser :: "YearPolicy \<Rightarrow> VersionParser" where
  "SemverParser pol =
     \<lparr>canParse = SemverParser_canParse pol,
      parse = (\<lambda>tag.
        case numericPattern tag of
          None \<Rightarrow> createFailedResult tag
        | Some c \<Rightarrow>
            if SemverParser_canParse pol tag
            then createSuccessResult SEMVER shapePreserving tag (numericInfo c)
            else createFailedResult tag)\<rparr>"

text \<open>
  Modelled from the spec: \<open>CalverParser.canParse\<close> and \<open>CalverParser.parse\<close>, missing from
  the sources. Section 4.3: \<open>YYYY.MM[.DD]\<close> or \<open>YY.MM[.DD]\<close>, optionally prefixed \<open>v\<close>, with
  the suffixes of Semver; the leading numeric group must plausibly be a year (four digits
  in a modern range, or two digits when the adjacent second group is a plausible month
  \<open>01\<close> to \<open>12\<close>); major is the year, minor the month, patch the day.
\<close>

definition CalverParser_canParse :: "YearPolicy \<Rightarrow> string \<Rightarrow> bool" where
  "CalverParser_canParse pol tag =
     (case numericPattern tag of
        None \<Rightarrow> False
      | Some (y, m, d, g4, g5) \<Rightarrow>
          length m = 2 \<and> length (orEmpty d) \<in> {0, 2} \<and>
          ((length y = 4 \<and> modernYearMin pol \<le> digitsValue y \<and> digitsValue y \<le> modernYearMax pol)
           \<or> (length y = 2 \<and> 1 \<le> digitsValue m \<and> digitsValue m \<le> 12)))"

definition CalverParser :: "YearPolicy \<Rightarrow> VersionParser" where
  "CalverParser pol =
     \<lparr>canParse = CalverParser_canParse pol,
      parse = (\<lambda>tag.
        case numericPattern tag of
          None \<Rightarrow> createFailedResult tag
        | Some c \<Rightarrow>
            if CalverParser_canParse pol tag
            then createSuccessResult CALVER shapePreserving tag (numericInfo c)
            else createFailedResult tag)\<rparr>"

text \<open>
  Modelled from the spec: \<open>DateBasedParser.canParse\<close> and \<open>DateBasedParser.parse\<close>, missing
  from the sources. Section 4.4: compact digit runs representing \<open>YYYYMMDD\<close>, mapped to
  major = year, minor = month, patch = day. The specification names no other shape and
  no reconstruction for this recognizer; the digits are put together again as captured.
\<close>

definition DateBasedParser_canParse :: "string \<Rightarrow> bool" where
  "DateBasedParser_canParse tag = (length tag = 8 \<and> list_all is_digit tag)"

definition DateBasedParser :: VersionParser where
  "DateBasedParser =
     \<lparr>canParse = DateBasedParser_canParse,
      parse = (\<lambda>tag.
        if DateBasedParser_canParse tag
        then createSuccessResult DATE_BASED (\<lambda>i t. major i @ minor i @ patch i) tag
               \<lparr>major = take 4 tag, minor = take 2 (drop 4 tag), patch = drop 6 tag,
                prerelease = [], build = []\<rparr>
        else createFailedResult tag)\<rparr>"

text \<open>One choice of the constants that the specification leaves open.\<close>

definition examplePolicy :: YearPolicy where
  "examplePolicy = \<lparr>twoDigitYearMin = 20, modernYearMin = 2000, modernYearMax = 2099\<rparr>"

section \<open>The state of a recognizer instance\<close>

text \<open>
  The fields of the Docker recognizer are \<open>readonly\<close>; the only mutable state that a call
  can reach is the \<open>lastIndex\<close> property of its two pattern objects. \<open>test\<close> and \<open>match\<close> run
  the pattern through the language's \<open>exec\<close>, which starts at \<open>lastIndex\<close> and writes it
  back only under the flags \<open>g\<close> and \<open>y\<close>. Both patterns are anchored at the start and at
  the end, so a match can only start at index \<open>0\<close> and ends at the length of the input.
  The flags of the two patterns are \<open>i\<close> and none.
\<close>

definition RegExpBuiltinExec ::
  "string \<Rightarrow> (string \<Rightarrow> 'r option) \<Rightarrow> nat \<Rightarrow> string \<Rightarrow> 'r option \<times> nat" where
  "RegExpBuiltinExec flags pattern lastIndex S =
     (let globalOrSticky = (CHR ''g'' \<in> set flags \<or> CHR ''y'' \<in> set flags);
          start = (if globalOrSticky then lastIndex else 0)
      in if length S < start then (None, if globalOrSticky then 0 else lastIndex)
         else (case (if start = 0 then pattern S else None) of
                 None \<Rightarrow> (None, if globalOrSticky then 0 else lastIndex)
               | Some m \<Rightarrow> (Some m, if globalOrSticky then length S else lastIndex)))"

record DockerParserState =
  versionLastIndex :: nat
  tagLastIndex :: nat

definition exec_dockerVersionPattern ::
  "DockerParserState \<Rightarrow> string \<Rightarrow> captures option \<times> DockerParserState" where
  "exec_dockerVersionPattern st tag =
     (case RegExpBuiltinExec ''i'' dockerVersionPattern (versionLastIndex st) tag of
        (m, li) \<Rightarrow> (m, st\<lparr>versionLastIndex := li\<rparr>))"

definition exec_dockerTagPattern ::
  "DockerParserState \<Rightarrow> string \<Rightarrow> unit option \<times> DockerParserState" where
  "exec_dockerTagPattern st tag =
     (case RegExpBuiltinExec [] dockerTagPattern (tagLastIndex st) tag of
        (m, li) \<Rightarrow> (m, st\<lparr>tagLastIndex := li\<rparr>))"

definition DockerParser_canParse_st :: "DockerParserState \<Rightarrow> string \<Rightarrow> bool \<times> DockerParserState" where
  "DockerParser_canParse_st st tag =
     (let lowerTag = toLowerCase tag in
      if lowerTag \<in> set specialTags then (True, st)
      else
        (case exec_dockerVersionPattern st tag of
           (Some m, st1) \<Rightarrow> (True, st1)
         | (None, st1) \<Rightarrow>
             (case exec_dockerTagPattern st1 tag of (m, st2) \<Rightarrow> (m \<noteq> None, st2))))"

definition DockerParser_parse_st ::
  "DockerParserState \<Rightarrow> string \<Rightarrow> ParseResult \<times> DockerParserState" where
  "DockerParser_parse_st st tag =
     (let lowerTag = toLowerCase tag in
      if lowerTag \<in> set specialTags then
        (createSuccessResult DOCKER DockerParser_reconstructVersion tag
           \<lparr>major = [], minor = [], patch = [], prerelease = [], build = []\<rparr>, st)
      else
        (case exec_dockerVersionPattern st tag of
           (None, st1) \<Rightarrow>
             (case exec_dockerTagPattern st1 tag of
                (None, st2) \<Rightarrow> (createFailedResult tag, st2)
              | (Some u, st2) \<Rightarrow>
                  (let dashIndex = indexOf tag CHR ''-'';
                       remainder = (if dashIndex = - 1 then [] else slice_from tag (dashIndex + 1))
                   in (createSuccessResult DOCKER DockerParser_reconstructVersion tag
                         \<lparr>major = [], minor = [], patch = [], prerelease = remainder,
                          build = []\<rparr>, st2)))
         | (Some (g1, g2, g3, g4), st1) \<Rightarrow>
             (createSuccessResult DOCKER DockerParser_reconstructVersion tag
                \<lparr>major = g1, minor = orEmpty g2, patch = orEmpty g3,
                 prerelease = orEmpty g4, build = []\<rparr>, st1)))"

text \<open>
  Modelled from the spec: the registry of section 4.6, missing from the sources, run on
  an instance with state. The recognizers taken as arguments are functions of the tag
  (section 5 of the specification); the Docker recognizer, probed last, carries its state
  through its two calls.
\<close>

primrec autoDetect_st ::
  "VersionParser list \<Rightarrow> DockerParserState \<Rightarrow> string \<Rightarrow> ParseResult \<times> DockerParserState" where
  "autoDetect_st [] st tag =
     (case DockerParser_canParse_st st tag of
        (True, st1) \<Rightarrow> DockerParser_parse_st st1 tag
      | (False, st1) \<Rightarrow> (createFailedResult tag, st1))"
| "autoDetect_st (p # ps) st tag =
     (if canParse p tag then (parse p tag, st) else autoDetect_st ps st tag)"

definition ParserRegistry_parse_st ::
  "VersionParser \<Rightarrow> VersionParser \<Rightarrow> VersionParser \<Rightarrow> DockerParserState \<Rightarrow> string \<Rightarrow>
   VersionType \<Rightarrow> ParseResult \<times> DockerParserState" where
  "ParserRegistry_parse_st semver calver dateBased st tag requested =
     (case requested of
        AUTO \<Rightarrow> autoDetect_st [semver, calver, dateBased] st tag
      | DOCKER \<Rightarrow> DockerParser_parse_st st tag
      | SEMVER \<Rightarrow> (parse semver tag, st)
      | CALVER \<Rightarrow> (parse calver tag, st)
      | DATE_BASED \<Rightarrow> (parse dateBased tag, st))"

section \<open>The version pattern, deterministically\<close>

text \<open>
  Backtracking never changes the outcome of the version pattern: every continuation
  fails on an input that starts with a character the preceding repetition could have
  taken, so each repetition takes its longest run.
\<close>

lemma dockerVersionPattern_unfold:
  "dockerVersionPattern = m_opt (m_char is_v) (m_plus_cap is_digit afterMajor)"
  unfolding dockerVersionPattern_def afterMajor_def afterMinor_def afterPatch_def ..

lemma m_star_cap_greedy:
  assumes "\<And>a c r. P c \<Longrightarrow> k a (c # r) = None"
  shows "m_star_cap P k acc s = k (acc @ takeWhile P s) (dropWhile P s)"
  using assms by (induction s arbitrary: acc) (auto split: option.splits)

lemma m_plus_cap_greedy:
  assumes "\<And>a c r. P c \<Longrightarrow> k a (c # r) = None"
  shows "m_plus_cap P k s =
     (if s \<noteq> [] \<and> P (hd s) then k (takeWhile P s) (dropWhile P s) else None)"
  using m_star_cap_greedy [of P k, OF assms]
  by (cases s) (auto simp: m_plus_cap_def)

lemma m_upto_end:
  "m_upto n P (m_end x) s = (if length s \<le> n \<and> list_all P s then Some x else None)"
  by (induction n arbitrary: s) (auto simp: m_end_def split: list.splits option.splits)

lemma afterPatch_eq:
  "afterPatch g1 g2 g3 s =
     (case s of
        [] \<Rightarrow> Some (g1, g2, g3, None)
      | c # r \<Rightarrow>
          if c = CHR ''-'' \<and> r \<noteq> [] \<and> list_all is_word_dot_dash r
          then Some (g1, g2, g3, Some r) else None)"
proof -
  have k: "\<And>a c r. is_word_dot_dash c \<Longrightarrow> m_end (g1, g2, g3, Some a) (c # r) = None"
    by (simp add: m_end_def)
  have plus: "m_plus_cap is_word_dot_dash (\<lambda>cap. m_end (g1, g2, g3, Some cap)) r =
      (if r \<noteq> [] \<and> list_all is_word_dot_dash r then Some (g1, g2, g3, Some r) else None)" for r
    using m_plus_cap_greedy [of is_word_dot_dash "\<lambda>cap. m_end (g1, g2, g3, Some cap)" r, OF k]
    by (cases r) (auto simp: m_end_def list_all_iff dropWhile_eq_Nil_conv)
  show ?thesis
    by (cases s)
      (auto simp: afterPatch_def m_opt_cap_def suffixGroup_def m_char_def plus m_end_def is_dash_def)
qed

lemma afterPatch_digit: "is_digit c \<Longrightarrow> afterPatch g1 g2 g3 (c # r) = None"
  by (auto simp: afterPatch_eq is_digit_def)

lemma afterPatch_dot: "afterPatch g1 g2 g3 (CHR ''.'' # r) = None"
  by (simp add: afterPatch_eq)

lemma afterPatch_None_iff: "afterPatch g1 g2 g3 s = None \<longleftrightarrow> afterPatch h1 h2 h3 s = None"
  by (auto simp: afterPatch_eq split: list.splits)

lemma dotGroup_eq:
  assumes "\<And>a c r. is_digit c \<Longrightarrow> k a (c # r) = None"
  shows "dotGroup k s =
     (case s of
        [] \<Rightarrow> None
      | c # r \<Rightarrow>
          if c = CHR ''.'' \<and> r \<noteq> [] \<and> is_digit (hd r)
          then k (takeWhile is_digit r) (dropWhile is_digit r) else None)"
  using m_plus_cap_greedy [of is_digit k, OF assms]
  by (cases s) (auto simp: dotGroup_def m_char_def is_dot_def)

lemma afterMinor_eq:
  "afterMinor g1 g2 s =
     (case s of
        [] \<Rightarrow> afterPatch g1 g2 None []
      | c # r \<Rightarrow>
          if c = CHR ''.''
          then (if r \<noteq> [] \<and> is_digit (hd r)
                then afterPatch g1 g2 (Some (takeWhile is_digit r)) (dropWhile is_digit r)
                else None)
          else afterPatch g1 g2 None s)"
  by (cases s)
    (auto simp: afterMinor_def m_opt_cap_def dotGroup_eq afterPatch_digit afterPatch_dot
          split: option.splits)

lemma afterMinor_digit: "is_digit c \<Longrightarrow> afterMinor g1 g2 (c # r) = None"
  by (auto simp: afterMinor_eq afterPatch_digit is_digit_def)

lemma afterMajor_eq:
  "afterMajor g1 s =
     (case s of
        [] \<Rightarrow> afterPatch g1 None None []
      | c # r \<Rightarrow>
          if c = CHR ''.''
          then (if r \<noteq> [] \<and> is_digit (hd r)
                then afterMinor g1 (Some (takeWhile is_digit r)) (dropWhile is_digit r)
                else None)
          else afterPatch g1 None None s)"
proof -
  have grp: "dotGroup (\<lambda>cap. afterMinor g1 (Some cap)) s' =
     (case s' of
        [] \<Rightarrow> None
      | c # r \<Rightarrow>
          if c = CHR ''.'' \<and> r \<noteq> [] \<and> is_digit (hd r)
          then afterMinor g1 (Some (takeWhile is_digit r)) (dropWhile is_digit r) else None)" for s'
    by (rule dotGroup_eq) (rule afterMinor_digit)
  show ?thesis
  proof (cases s)
    case Nil
    then show ?thesis
      by (simp add: afterMajor_def m_opt_cap_def grp afterMinor_eq)
  next
    case (Cons c r)
    show ?thesis
    proof (cases "c = CHR ''.'' \<and> r \<noteq> [] \<and> is_digit (hd r)")
      case False
      then show ?thesis using Cons
        by (auto simp: afterMajor_def m_opt_cap_def grp afterMinor_eq)
    next
      case True
      let ?t = "takeWhile is_digit r" and ?d = "dropWhile is_digit r"
      have fallback: "afterPatch g1 None (Some ?t) ?d = None"
        if "afterMinor g1 (Some ?t) ?d = None"
      proof (cases ?d)
        case Nil
        with that show ?thesis
          by (simp add: afterMinor_eq afterPatch_eq)
      next
        case (Cons c' r')
        with that show ?thesis
          using afterPatch_None_iff [of g1 "Some ?t" None ?d g1 None "Some ?t"]
          by (auto simp: afterMinor_eq afterPatch_dot split: if_splits)
      qed
      show ?thesis using Cons True fallback
        by (auto simp: afterMajor_def m_opt_cap_def grp afterMinor_eq [of g1 None]
              split: option.splits)
    qed
  qed
qed

lemma afterMajor_digit: "is_digit c \<Longrightarrow> afterMajor g1 (c # r) = None"
  by (auto simp: afterMajor_eq afterPatch_digit is_digit_def)

lemma dockerVersionPattern_eq:
  "dockerVersionPattern tag =
     (let s = (if tag \<noteq> [] \<and> is_v (hd tag) then tl tag else tag)
      in if s \<noteq> [] \<and> is_digit (hd s)
         then afterMajor (takeWhile is_digit s) (dropWhile is_digit s) else None)"
proof -
  have plus: "m_plus_cap is_digit afterMajor s =
      (if s \<noteq> [] \<and> is_digit (hd s)
       then afterMajor (takeWhile is_digit s) (dropWhile is_digit s) else None)" for s
    by (rule m_plus_cap_greedy) (rule afterMajor_digit)
  have v: "is_v c \<Longrightarrow> \<not> is_digit c" for c
    by (auto simp: is_v_def is_digit_def)
  show ?thesis
    by (cases tag) (auto simp: dockerVersionPattern_unfold m_opt_def m_char_def plus Let_def v
          split: option.splits)
qed


lemma span_stop:
  assumes "list_all P xs" and "ys = [] \<or> \<not> P (hd ys)"
  shows "takeWhile P (xs @ ys) = xs" and "dropWhile P (xs @ ys) = ys"
proof -
  from assms(2) have ys: "takeWhile P ys = []" "dropWhile P ys = ys"
    by (cases ys; simp)+
  from assms(1) ys show "takeWhile P (xs @ ys) = xs" and "dropWhile P (xs @ ys) = ys"
    by (induction xs) auto
qed

lemma dashed_stop: "dashed sf = [] \<or> \<not> is_digit (hd (dashed sf))"
  by (auto simp: dashed_def is_digit_def split: option.splits)

lemma afterPatch_dashed:
  "opt_all suffixText sf \<Longrightarrow> afterPatch g1 g2 g3 (dashed sf) = Some (g1, g2, g3, sf)"
  by (auto simp: afterPatch_eq dashed_def opt_all_def suffixText_def split: option.splits)

lemma afterMinor_dotted:
  assumes "opt_all numeric pt" and "opt_all suffixText sf"
  shows "afterMinor g1 g2 (dotted pt @ dashed sf) = Some (g1, g2, pt, sf)"
proof (cases pt)
  case None
  then show ?thesis
    using afterPatch_dashed [OF assms(2), of g1 g2 None]
    by (cases "dashed sf") (auto simp: afterMinor_eq dotted_def dashed_def split: option.splits)
next
  case (Some p)
  with assms(1) have p: "list_all is_digit p" "p \<noteq> []" "is_digit (hd (p @ dashed sf))"
    by (cases p; simp add: opt_all_def numeric_def)+
  show ?thesis
    using Some p afterPatch_dashed [OF assms(2), of g1 g2 "Some p"]
      span_stop [OF p(1) dashed_stop, of sf]
    by (simp add: afterMinor_eq dotted_def)
qed

lemma afterMajor_dotted:
  assumes "opt_all numeric mn" and "opt_all numeric pt" and "opt_all suffixText sf"
    and "mn = None \<longrightarrow> pt = None"
  shows "afterMajor g1 (dotted mn @ dotted pt @ dashed sf) = Some (g1, mn, pt, sf)"
proof (cases mn)
  case None
  with assms(4) have "pt = None" by simp
  then show ?thesis
    using None afterPatch_dashed [OF assms(3), of g1 None None]
    by (cases "dashed sf") (auto simp: afterMajor_eq dotted_def dashed_def split: option.splits)
next
  case (Some m)
  let ?rest = "dotted pt @ dashed sf"
  from Some assms(1) have m: "list_all is_digit m" "m \<noteq> []" "is_digit (hd (m @ ?rest))"
    by (cases m; simp add: opt_all_def numeric_def)+
  have stop: "?rest = [] \<or> \<not> is_digit (hd ?rest)"
    using dashed_stop [of sf] by (cases pt) (auto simp: dotted_def is_digit_def)
  show ?thesis
    using Some m afterMinor_dotted [OF assms(2,3), of g1 "Some m"] span_stop [OF m(1) stop]
    by (simp add: afterMajor_eq dotted_def)
qed

lemma dockerVersionPattern_complete:
  assumes "v = [] \<or> v = ''v'' \<or> v = ''V''" and "numeric mj"
    and "opt_all numeric mn" and "opt_all numeric pt" and "opt_all suffixText sf"
    and "mn = None \<longrightarrow> pt = None"
  shows "dockerVersionPattern (versionLikeTag v mj mn pt sf) = Some (mj, mn, pt, sf)"
proof -
  let ?rest = "dotted mn @ dotted pt @ dashed sf"
  from assms(2) have mj: "list_all is_digit mj" "mj \<noteq> []" "is_digit (hd mj)"
    by (cases mj; simp add: numeric_def)+
  have stop: "?rest = [] \<or> \<not> is_digit (hd ?rest)"
    using dashed_stop [of sf]
    by (cases mn; cases pt) (auto simp: dotted_def is_digit_def)
  have nv: "\<not> is_v (hd mj)"
    using mj(3) by (auto simp: is_v_def is_digit_def)
  have body: "(if mj @ ?rest \<noteq> [] \<and> is_digit (hd (mj @ ?rest))
         then afterMajor (takeWhile is_digit (mj @ ?rest)) (dropWhile is_digit (mj @ ?rest))
         else None) = Some (mj, mn, pt, sf)"
    using mj span_stop [OF mj(1) stop] afterMajor_dotted [OF assms(3-6), of mj]
    by simp
  from assms(1) show ?thesis
    using body mj nv
    by (auto simp: dockerVersionPattern_eq versionLikeTag_def is_v_def Let_def)
qed

lemma afterPatch_sound:
  "afterPatch g1 g2 g3 s = Some (h1, h2, h3, h4) \<Longrightarrow>
     h1 = g1 \<and> h2 = g2 \<and> h3 = g3 \<and> s = dashed h4 \<and> opt_all suffixText h4"
  by (auto simp: afterPatch_eq dashed_def opt_all_def suffixText_def split: list.splits if_splits)

lemma digits_numeric: "r \<noteq> [] \<Longrightarrow> is_digit (hd r) \<Longrightarrow> numeric (takeWhile is_digit r)"
  by (cases r) (auto simp: numeric_def list_all_iff dest: set_takeWhileD)

lemma afterMinor_sound:
  assumes "afterMinor g1 g2 s = Some (h1, h2, h3, h4)"
  shows "h1 = g1 \<and> h2 = g2 \<and> s = dotted h3 @ dashed h4 \<and> opt_all numeric h3 \<and> opt_all suffixText h4"
proof (cases "s \<noteq> [] \<and> hd s = CHR ''.''")
  case True
  then obtain r where s: "s = CHR ''.'' # r" by (cases s) auto
  with assms have r: "r \<noteq> []" "is_digit (hd r)"
    and ap: "afterPatch g1 g2 (Some (takeWhile is_digit r)) (dropWhile is_digit r) = Some (h1, h2, h3, h4)"
    by (auto simp: afterMinor_eq split: if_splits)
  from afterPatch_sound [OF ap] digits_numeric [OF r] s show ?thesis
    using takeWhile_dropWhile_id [of is_digit r]
    by (auto simp: dotted_def opt_all_def)
next
  case False
  with assms have "afterPatch g1 g2 None s = Some (h1, h2, h3, h4)"
    by (cases s) (auto simp: afterMinor_eq split: if_splits)
  from afterPatch_sound [OF this] show ?thesis
    by (auto simp: dotted_def opt_all_def)
qed

lemma afterMajor_sound:
  assumes "afterMajor g1 s = Some (h1, h2, h3, h4)"
  shows "h1 = g1 \<and> s = dotted h2 @ dotted h3 @ dashed h4 \<and> opt_all numeric h2 \<and>
     opt_all numeric h3 \<and> opt_all suffixText h4 \<and> (h2 = None \<longrightarrow> h3 = None)"
proof (cases "s \<noteq> [] \<and> hd s = CHR ''.''")
  case True
  then obtain r where s: "s = CHR ''.'' # r" by (cases s) auto
  with assms have r: "r \<noteq> []" "is_digit (hd r)"
    and am: "afterMinor g1 (Some (takeWhile is_digit r)) (dropWhile is_digit r) = Some (h1, h2, h3, h4)"
    by (auto simp: afterMajor_eq split: if_splits)
  from afterMinor_sound [OF am] digits_numeric [OF r] s show ?thesis
    using takeWhile_dropWhile_id [of is_digit r]
    by (auto simp: dotted_def opt_all_def)
next
  case False
  with assms have "afterPatch g1 None None s = Some (h1, h2, h3, h4)"
    by (cases s) (auto simp: afterMajor_eq split: if_splits)
  from afterPatch_sound [OF this] show ?thesis
    by (auto simp: dotted_def opt_all_def)
qed

lemma dockerVersionPattern_sound:
  assumes "dockerVersionPattern tag = Some (g1, g2, g3, g4)"
  shows "\<exists>v. tag = versionLikeTag v g1 g2 g3 g4 \<and> (v = [] \<or> v = ''v'' \<or> v = ''V'') \<and>
     numeric g1 \<and> opt_all numeric g2 \<and> opt_all numeric g3 \<and> opt_all suffixText g4 \<and>
     (g2 = None \<longrightarrow> g3 = None)"
proof -
  define v where "v = (if tag \<noteq> [] \<and> is_v (hd tag) then [hd tag] else [])"
  define s where "s = (if tag \<noteq> [] \<and> is_v (hd tag) then tl tag else tag)"
  have tag: "tag = v @ s" and v: "v = [] \<or> v = ''v'' \<or> v = ''V''"
    by (auto simp: v_def s_def is_v_def)
  from assms have s: "s \<noteq> []" "is_digit (hd s)"
    and am: "afterMajor (takeWhile is_digit s) (dropWhile is_digit s) = Some (g1, g2, g3, g4)"
    by (auto simp: dockerVersionPattern_eq s_def Let_def split: if_splits)
  from afterMajor_sound [OF am] digits_numeric [OF s] tag v show ?thesis
    using takeWhile_dropWhile_id [of is_digit s]
    by (auto simp: versionLikeTag_def intro!: exI [of _ v])
qed



section \<open>Facts about the Docker recognizer\<close>

lemma dockerTagPattern_eq:
  "test dockerTagPattern s =
     (s \<noteq> [] \<and> is_word (hd s) \<and> length s \<le> 128 \<and> list_all is_word_dot_dash (tl s))"
  by (cases s) (auto simp: test_def dockerTagPattern_def m_char_def m_upto_end)

lemma upper_word:
  "map_of (zip ''ABCDEFGHIJKLMNOPQRSTUVWXYZ'' ''abcdefghijklmnopqrstuvwxyz'') c = Some l \<Longrightarrow> is_word c"
  by (drule map_of_SomeD) (auto simp: is_word_def dest!: set_zip_leftD)

lemma toLowerCase_char_word: "is_word (toLowerCase_char c) \<Longrightarrow> is_word c"
  by (auto simp: toLowerCase_char_def upper_word split: option.splits)

lemma toLowerCase_word: "list_all is_word (toLowerCase s) \<Longrightarrow> list_all is_word s"
  by (induction s) (auto simp: toLowerCase_def toLowerCase_char_word)

lemma specialTags_lower_word:
  "s \<in> set specialTags \<Longrightarrow> list_all is_word s \<and> length s \<le> 10 \<and> s \<noteq> []"
  unfolding specialTags_def is_word_def by auto

lemma specialTags_word:
  assumes "toLowerCase tag \<in> set specialTags"
  shows "list_all is_word tag" and "length tag \<le> 10" and "tag \<noteq> []"
  using specialTags_lower_word [OF assms] toLowerCase_word [of tag]
  by (auto simp: toLowerCase_def)

lemma special_matches_tag_grammar:
  assumes "toLowerCase tag \<in> set specialTags"
  shows "test dockerTagPattern tag"
  using specialTags_word [OF assms]
  by (cases tag) (auto simp: dockerTagPattern_eq is_word_dot_dash_def list_all_iff)

lemma versionLike_head:
  assumes "dockerVersionPattern tag \<noteq> None"
  shows "tag \<noteq> [] \<and> (is_v (hd tag) \<or> is_digit (hd tag))"
  using assms by (auto simp: dockerVersionPattern_eq Let_def split: if_splits)

lemma toLowerCase_char_id:
  assumes "c \<notin> set ''ABCDEFGHIJKLMNOPQRSTUVWXYZ''"
  shows "toLowerCase_char c = c"
proof -
  have "map_of (zip ''ABCDEFGHIJKLMNOPQRSTUVWXYZ'' ''abcdefghijklmnopqrstuvwxyz'') c = None"
    using assms by (subst map_of_zip_is_None) simp_all
  then show ?thesis
    unfolding toLowerCase_char_def by (simp only: option.case)
qed

lemma lower_head_char:
  assumes "is_v c \<or> is_digit c"
  shows "toLowerCase_char c \<in> set ''v0123456789''"
proof (cases "c = CHR ''V''")
  case True
  then show ?thesis by (simp add: toLowerCase_char_def)
next
  case False
  with assms have c: "c \<in> set ''v0123456789''"
    by (auto simp: is_v_def is_digit_def)
  then have "c \<notin> set ''ABCDEFGHIJKLMNOPQRSTUVWXYZ''"
    by auto
  from toLowerCase_char_id [OF this] c show ?thesis by simp
qed

lemma versionLike_not_special:
  assumes "dockerVersionPattern tag \<noteq> None"
  shows "toLowerCase tag \<notin> set specialTags"
proof -
  from versionLike_head [OF assms] obtain c r where tag: "tag = c # r" and c: "is_v c \<or> is_digit c"
    by (cases tag) auto
  from lower_head_char [OF c] have "hd (toLowerCase tag) \<in> set ''v0123456789''"
    by (simp add: tag toLowerCase_def)
  moreover have "hd s \<notin> set ''v0123456789''" if "s \<in> set specialTags" for s
    using that by (auto simp: specialTags_def)
  ultimately show ?thesis by blast
qed

lemma digit_word: "is_digit c \<Longrightarrow> is_word c"
  unfolding is_digit_def is_word_def by auto

lemma v_word: "is_v c \<Longrightarrow> is_word c"
  unfolding is_v_def is_word_def by auto

lemma numeric_tagchars: "numeric s \<Longrightarrow> list_all is_word_dot_dash s"
  unfolding numeric_def list_all_iff is_word_dot_dash_def using digit_word by blast

lemma versionLike_tagchars:
  assumes "dockerVersionPattern tag \<noteq> None"
  shows "list_all is_word_dot_dash tag" and "is_word (hd tag)"
proof -
  from assms obtain g1 g2 g3 g4 where "dockerVersionPattern tag = Some (g1, g2, g3, g4)"
    by (cases "dockerVersionPattern tag") auto
  from dockerVersionPattern_sound [OF this] obtain v where
    tag: "tag = v @ g1 @ dotted g2 @ dotted g3 @ dashed g4"
    and v: "v = [] \<or> v = ''v'' \<or> v = ''V''"
    and g: "numeric g1" "opt_all numeric g2" "opt_all numeric g3" "opt_all suffixText g4"
    by (auto simp: versionLikeTag_def)
  have "list_all is_word_dot_dash v"
    using v v_word [of "CHR ''v''"] v_word [of "CHR ''V''"]
    by (auto simp: is_word_dot_dash_def is_v_def)
  moreover have "list_all is_word_dot_dash (dotted g2)" "list_all is_word_dot_dash (dotted g3)"
    using g(2,3) by (auto simp: dotted_def opt_all_def is_word_dot_dash_def numeric_tagchars
        split: option.splits)
  moreover have "list_all is_word_dot_dash (dashed g4)"
    using g(4) by (auto simp: dashed_def opt_all_def suffixText_def is_word_dot_dash_def
        split: option.splits)
  ultimately show "list_all is_word_dot_dash tag"
    using tag numeric_tagchars [OF g(1)] by simp
  from versionLike_head [OF assms] show "is_word (hd tag)"
    by (auto simp: v_word digit_word)
qed

lemma indexOf_ge: "- 1 \<le> indexOf s c"
  by (induction s) (auto simp: Let_def)

lemma indexOf_none: "indexOf s c = - 1 \<longleftrightarrow> c \<notin> set s"
proof (induction s)
  case Nil
  then show ?case by simp
next
  case (Cons x s)
  then show ?case
    using indexOf_ge [of s c] by (auto simp: Let_def)
qed

lemma indexOf_first: "c \<notin> set a \<Longrightarrow> indexOf (a @ c # b) c = int (length a)"
proof (induction a)
  case Nil
  then show ?case by simp
next
  case (Cons x a)
  then show ?case by (auto simp: Let_def)
qed


lemma DockerParser_parse_special:
  assumes "toLowerCase tag \<in> set specialTags"
  shows "DockerParser_parse tag =
     \<lparr>isValid = True, version = tag,
      info = \<lparr>major = [], minor = [], patch = [], prerelease = [], build = []\<rparr>,
      format = Some DOCKER\<rparr>"
  using assms
  by (simp add: DockerParser_parse_def createSuccessResult_def DockerParser_reconstructVersion_def)

lemma DockerParser_parse_versionLike:
  assumes "dockerVersionPattern tag = Some (g1, g2, g3, g4)"
  shows "DockerParser_parse tag =
     \<lparr>isValid = True,
      version = g1 @ ''.'' @ orEmpty g2 @ ''.'' @ (case g3 of None \<Rightarrow> ''0'' | Some p \<Rightarrow> p) @ dashed g4,
      info = \<lparr>major = g1, minor = orEmpty g2, patch = orEmpty g3, prerelease = orEmpty g4,
              build = []\<rparr>,
      format = Some DOCKER\<rparr>"
proof -
  from assms have ns: "toLowerCase tag \<notin> set specialTags"
    by (intro versionLike_not_special) simp
  from dockerVersionPattern_sound [OF assms]
  have g: "g1 \<noteq> []" "opt_all numeric g3" "opt_all suffixText g4"
    by (auto simp: numeric_def)
  from g(2) have p: "(if orEmpty g3 = [] then ''0'' else orEmpty g3) =
      (case g3 of None \<Rightarrow> ''0'' | Some p \<Rightarrow> p)"
    by (auto simp: opt_all_def numeric_def orEmpty_def split: option.splits)
  from g(3) have sfx: "orEmpty g4 \<noteq> [] \<longleftrightarrow> g4 \<noteq> None" "''-'' @ orEmpty g4 = dashed g4 \<or> g4 = None"
    by (auto simp: opt_all_def suffixText_def orEmpty_def dashed_def split: option.splits)
  show ?thesis
    using assms ns g(1) p sfx
    by (cases g4)
      (auto simp: DockerParser_parse_def createSuccessResult_def
        DockerParser_reconstructVersion_def Let_def dashed_def orEmpty_def)
qed

lemma split_at_first:
  assumes "c \<notin> set a"
  shows "takeWhile (\<lambda>x. x \<noteq> c) (a @ c # b) = a" and "dropWhile (\<lambda>x. x \<noteq> c) (a @ c # b) = c # b"
  using assms by (induction a) auto

lemma DockerParser_parse_opaque:
  assumes "toLowerCase tag \<notin> set specialTags" and "dockerVersionPattern tag = None"
    and "test dockerTagPattern tag"
  shows "DockerParser_parse tag =
     \<lparr>isValid = True, version = takeWhile (\<lambda>c. c \<noteq> CHR ''-'') tag,
      info = \<lparr>major = [], minor = [], patch = [],
              prerelease = drop 1 (dropWhile (\<lambda>c. c \<noteq> CHR ''-'') tag), build = []\<rparr>,
      format = Some DOCKER\<rparr>"
proof (cases "CHR ''-'' \<in> set tag")
  case False
  then have ix: "indexOf tag CHR ''-'' = - 1"
    by (simp add: indexOf_none)
  from False have tw: "takeWhile (\<lambda>c. c \<noteq> CHR ''-'') tag = tag"
    by (subst takeWhile_eq_all_conv) auto
  from False have dw: "dropWhile (\<lambda>c. c \<noteq> CHR ''-'') tag = []"
    by (subst dropWhile_eq_Nil_conv) auto
  from assms show ?thesis
    by (simp add: DockerParser_parse_def createSuccessResult_def
        DockerParser_reconstructVersion_def Let_def ix tw dw)
next
  case True
  then obtain a b where tag: "tag = a @ CHR ''-'' # b" and a: "CHR ''-'' \<notin> set a"
    by (auto dest: split_list_first)
  from a have ix: "indexOf tag CHR ''-'' = int (length a)"
    unfolding tag by (rule indexOf_first)
  from a have tw: "takeWhile (\<lambda>c. c \<noteq> CHR ''-'') tag = a"
    "dropWhile (\<lambda>c. c \<noteq> CHR ''-'') tag = CHR ''-'' # b"
    unfolding tag by (rule split_at_first)+
  have sl: "slice tag 0 (int (length a)) = a" "slice_from tag (int (length a) + 1) = b"
    unfolding tag by (auto simp: slice_def slice_from_def nat_add_distrib)
  from assms show ?thesis
    by (simp add: DockerParser_parse_def createSuccessResult_def
        DockerParser_reconstructVersion_def Let_def ix tw sl)
qed

lemma DockerParser_parse_rejected:
  assumes "toLowerCase tag \<notin> set specialTags" and "dockerVersionPattern tag = None"
    and "\<not> test dockerTagPattern tag"
  shows "DockerParser_parse tag = createFailedResult tag"
  using assms by (simp add: DockerParser_parse_def)


lemma DockerParser_parse_valid_iff:
  "isValid (DockerParser_parse tag) \<longleftrightarrow>
     toLowerCase tag \<in> set specialTags \<or> test dockerVersionPattern tag
     \<or> test dockerTagPattern tag"
  by (cases "dockerVersionPattern tag")
    (auto simp: DockerParser_parse_def createSuccessResult_def createFailedResult_def Let_def
      test_def)

lemma DockerParser_followsBase:
  "isValid (DockerParser_parse tag) \<or> DockerParser_parse tag = createFailedResult tag"
  by (auto simp: DockerParser_parse_def createSuccessResult_def Let_def split: option.splits)

text \<open>The tags that the recognizer's documentation lists as supported.\<close>

lemma DockerParser_supports_documented_tags:
  "list_all DockerParser_canParse
     [''latest'', ''stable'', ''1.2.3'', ''v1.2.3'', ''1.2.3-alpine'', ''v1.2.3-ubuntu'',
      ''1.2.3-alpine-3.18'']"
  by code_simp

lemma word_tagchar: "is_word c \<Longrightarrow> is_word_dot_dash c"
  by (simp add: is_word_dot_dash_def)

lemma bad_char_fails_tag_grammar:
  assumes "\<exists>c \<in> set tag. \<not> is_word_dot_dash c"
  shows "\<not> test dockerTagPattern tag"
proof
  assume "test dockerTagPattern tag"
  then have "is_word (hd tag)" "list_all is_word_dot_dash (tl tag)" "tag \<noteq> []"
    by (simp_all add: dockerTagPattern_eq)
  then have "list_all is_word_dot_dash tag"
    by (cases tag) (auto simp: word_tagchar)
  with assms show False
    by (auto simp: list_all_iff)
qed

lemma overlong_version_tag:
  "dockerVersionPattern (''1.0.0-'' @ replicate 123 CHR ''a'') =
     Some (''1'', Some ''0'', Some ''0'', Some (replicate 123 CHR ''a''))"
proof -
  have "dockerVersionPattern
      (versionLikeTag [] ''1'' (Some ''0'') (Some ''0'') (Some (replicate 123 CHR ''a''))) =
     Some (''1'', Some ''0'', Some ''0'', Some (replicate 123 CHR ''a''))"
    by (rule dockerVersionPattern_complete)
      (simp_all add: numeric_def opt_all_def suffixText_def is_digit_def is_word_dot_dash_def
        is_word_def list_all_iff)
  then show ?thesis
    by (simp add: versionLikeTag_def dotted_def dashed_def)
qed

text \<open>
  The result for a version-like tag \<open>v?MAJOR[.MINOR[.PATCH]][-SUFFIX]\<close>, from its parts. The
  middle component of the version is the minor as it was captured.
\<close>

lemma DockerParser_parse_versionLikeTag:
  assumes "v = [] \<or> v = ''v'' \<or> v = ''V''" and "numeric mj"
    and "opt_all numeric mn" and "opt_all numeric pt" and "opt_all suffixText sf"
    and "mn = None \<longrightarrow> pt = None"
  shows "DockerParser_parse (versionLikeTag v mj mn pt sf) =
     \<lparr>isValid = True,
      version = mj @ ''.'' @ orEmpty mn @ ''.'' @ (case pt of None \<Rightarrow> ''0'' | Some p \<Rightarrow> p)
                @ dashed sf,
      info = \<lparr>major = mj, minor = orEmpty mn, patch = orEmpty pt, prerelease = orEmpty sf,
              build = []\<rparr>,
      format = Some DOCKER\<rparr>"
  using dockerVersionPattern_complete [OF assms] by (rule DockerParser_parse_versionLike)

lemma DockerParser_parse_v1_2_alpine:
  "numeric ''1'' \<and> opt_all numeric (Some ''2'') \<and> opt_all numeric None \<and>
   opt_all suffixText (Some ''alpine'') \<and>
   versionLikeTag ''v'' ''1'' (Some ''2'') None (Some ''alpine'') = ''v1.2-alpine'' \<and>
   DockerParser_parse ''v1.2-alpine'' =
     \<lparr>isValid = True, version = ''1.2.0-alpine'',
      info = \<lparr>major = ''1'', minor = ''2'', patch = [], prerelease = ''alpine'', build = []\<rparr>,
      format = Some DOCKER\<rparr>"
proof -
  have h: "numeric ''1''" "opt_all numeric (Some ''2'')" "opt_all numeric None"
    "opt_all suffixText (Some ''alpine'')"
    by (simp_all add: numeric_def opt_all_def suffixText_def is_digit_def is_word_dot_dash_def
        is_word_def)
  have t: "versionLikeTag ''v'' ''1'' (Some ''2'') None (Some ''alpine'') = ''v1.2-alpine''"
    by (simp add: versionLikeTag_def dotted_def dashed_def)
  from DockerParser_parse_versionLikeTag [of "''v''" "''1''" "Some ''2''" None "Some ''alpine''"] h
  show ?thesis
    by (simp add: t orEmpty_def dashed_def)
qed

lemma DockerParser_parse_1_alpine:
  "DockerParser_parse ''1-alpine'' =
     \<lparr>isValid = True, version = ''1..0-alpine'',
      info = \<lparr>major = ''1'', minor = [], patch = [], prerelease = ''alpine'', build = []\<rparr>,
      format = Some DOCKER\<rparr>"
proof -
  have h: "numeric ''1''" "opt_all numeric None" "opt_all suffixText (Some ''alpine'')"
    by (simp_all add: numeric_def opt_all_def suffixText_def is_digit_def is_word_dot_dash_def
        is_word_def)
  have t: "versionLikeTag [] ''1'' None None (Some ''alpine'') = ''1-alpine''"
    by (simp add: versionLikeTag_def dotted_def dashed_def)
  from DockerParser_parse_versionLikeTag [of "[]" "''1''" None None "Some ''alpine''"] h
  show ?thesis
    by (simp add: t orEmpty_def dashed_def)
qed

section \<open>Facts about the registry\<close>

lemma DockerParser_sel [simp]:
  "canParse DockerParser = DockerParser_canParse" "parse DockerParser = DockerParser_parse"
  by (simp_all add: DockerParser_def)

lemma ParserRegistry_parse_AUTO:
  "ParserRegistry_parse semver calver dateBased tag AUTO =
     autoDetect [semver, calver, dateBased, DockerParser] tag"
  by (simp add: ParserRegistry_parse_def ParserRegistry_parsers_def)

lemma ParserRegistry_parse_DOCKER:
  "ParserRegistry_parse semver calver dateBased tag DOCKER = DockerParser_parse tag"
  by (simp add: ParserRegistry_parse_def ParserRegistry_parsers_def)

lemma ParserRegistry_parse_numeric:
  "ParserRegistry_parse semver calver dateBased tag SEMVER = parse semver tag"
  "ParserRegistry_parse semver calver dateBased tag CALVER = parse calver tag"
  "ParserRegistry_parse semver calver dateBased tag DATE_BASED = parse dateBased tag"
  by (simp_all add: ParserRegistry_parse_def ParserRegistry_parsers_def)

lemma autoDetect_docker_last:
  assumes "\<not> canParse semver tag" and "\<not> canParse calver tag" and "\<not> canParse dateBased tag"
  shows "ParserRegistry_parse semver calver dateBased tag AUTO =
     (if DockerParser_canParse tag then DockerParser_parse tag else createFailedResult tag)"
  using assms by (simp add: ParserRegistry_parse_AUTO)

lemma dockerVersionPattern_v1: "dockerVersionPattern ''v1'' = Some (''1'', None, None, None)"
  by (simp add: dockerVersionPattern_eq afterMajor_eq afterPatch_eq is_v_def is_digit_def)

lemma DockerParser_parse_v1:
  "DockerParser_parse ''v1'' =
     \<lparr>isValid = True, version = ''1..0'',
      info = \<lparr>major = ''1'', minor = [], patch = [], prerelease = [], build = []\<rparr>,
      format = Some DOCKER\<rparr>"
  by (simp add: DockerParser_parse_versionLike [OF dockerVersionPattern_v1] orEmpty_def dashed_def)

lemma DockerParser_canParse_v1: "DockerParser_canParse ''v1''"
  by (simp add: DockerParser_canParse_def test_def dockerVersionPattern_v1)

lemma registry_v1:
  assumes "\<not> canParse semver ''v1''" and "\<not> canParse calver ''v1''"
    and "\<not> canParse dateBased ''v1''"
  shows "ParserRegistry_parse semver calver dateBased ''v1'' AUTO =
     \<lparr>isValid = True, version = ''1..0'',
      info = \<lparr>major = ''1'', minor = [], patch = [], prerelease = [], build = []\<rparr>,
      format = Some DOCKER\<rparr>"
  by (simp only: autoDetect_docker_last [OF assms] DockerParser_canParse_v1 DockerParser_parse_v1
      if_True)

lemma numericPattern_v1: "numericPattern ''v1'' = None"
  by (simp add: numericPattern_def m_opt_def m_char_def m_plus_cap_def is_digit_def is_dot_def)

lemma numericPattern_v123dash: "numericPattern ''v1.2.3-'' = None"
  by (simp add: numericPattern_def m_opt_def m_char_def m_plus_cap_def is_digit_def is_dot_def
      m_opt_cap_def dotGroup_def identifiersGroup_def m_end_def is_dash_def)

lemma numeric_reject_v1:
  "\<not> canParse (SemverParser pol) ''v1''" "\<not> canParse (CalverParser pol) ''v1''"
  "\<not> canParse DateBasedParser ''v1''"
  by (simp_all add: SemverParser_def SemverParser_canParse_def CalverParser_def
      CalverParser_canParse_def DateBasedParser_def DateBasedParser_canParse_def numericPattern_v1)

lemma numeric_reject_v123dash:
  "\<not> canParse (SemverParser pol) ''v1.2.3-''" "\<not> canParse (CalverParser pol) ''v1.2.3-''"
  "\<not> canParse DateBasedParser ''v1.2.3-''"
  by (simp_all add: SemverParser_def SemverParser_canParse_def CalverParser_def
      CalverParser_canParse_def DateBasedParser_def DateBasedParser_canParse_def
      numericPattern_v123dash)

lemma DockerParser_v123dash:
  "DockerParser_canParse ''v1.2.3-''"
  "DockerParser_parse ''v1.2.3-'' =
     \<lparr>isValid = True, version = ''v1.2.3'',
      info = \<lparr>major = [], minor = [], patch = [], prerelease = [], build = []\<rparr>,
      format = Some DOCKER\<rparr>"
proof -
  have ns: "toLowerCase ''v1.2.3-'' \<notin> set specialTags"
    by (simp add: toLowerCase_def specialTags_def)
  have nv: "dockerVersionPattern ''v1.2.3-'' = None"
    by (simp add: dockerVersionPattern_eq afterMajor_eq afterMinor_eq afterPatch_eq is_v_def
        is_digit_def)
  have tg: "test dockerTagPattern ''v1.2.3-''"
    by (simp add: dockerTagPattern_eq is_word_def is_word_dot_dash_def)
  from tg show "DockerParser_canParse ''v1.2.3-''"
    by (simp add: DockerParser_canParse_def)
  show "DockerParser_parse ''v1.2.3-'' =
     \<lparr>isValid = True, version = ''v1.2.3'',
      info = \<lparr>major = [], minor = [], patch = [], prerelease = [], build = []\<rparr>,
      format = Some DOCKER\<rparr>"
    unfolding DockerParser_parse_opaque [OF ns nv tg] by simp
qed

lemma registry_v123dash:
  assumes "\<not> canParse semver ''v1.2.3-''" and "\<not> canParse calver ''v1.2.3-''"
    and "\<not> canParse dateBased ''v1.2.3-''"
  shows "ParserRegistry_parse semver calver dateBased ''v1.2.3-'' AUTO =
     \<lparr>isValid = True, version = ''v1.2.3'',
      info = \<lparr>major = [], minor = [], patch = [], prerelease = [], build = []\<rparr>,
      format = Some DOCKER\<rparr>"
  by (simp only: autoDetect_docker_last [OF assms] DockerParser_v123dash if_True)

lemma followsBase_numeric:
  "followsBase (SemverParser pol)" "followsBase (CalverParser pol)" "followsBase DateBasedParser"
  by (auto simp: followsBase_def SemverParser_def CalverParser_def DateBasedParser_def
      createSuccessResult_def split: option.splits)

lemma followsBase_Docker: "followsBase DockerParser"
  by (simp add: followsBase_def DockerParser_followsBase)

lemma autoDetect_followsBase:
  assumes "list_all followsBase ps"
  shows "isValid (autoDetect ps tag) \<or> autoDetect ps tag = createFailedResult tag"
  using assms by (induction ps) (auto simp: followsBase_def)

lemma registry_followsBase:
  assumes "followsBase semver" and "followsBase calver" and "followsBase dateBased"
  shows "isValid (ParserRegistry_parse semver calver dateBased tag requested)
     \<or> ParserRegistry_parse semver calver dateBased tag requested = createFailedResult tag"
proof (cases requested)
  case AUTO
  then show ?thesis
    using autoDetect_followsBase [of "[semver, calver, dateBased, DockerParser]" tag] assms
    by (simp add: ParserRegistry_parse_AUTO followsBase_Docker)
next
  case DOCKER
  then show ?thesis
    by (simp add: ParserRegistry_parse_DOCKER DockerParser_followsBase)
qed (use assms in \<open>auto simp: ParserRegistry_parse_numeric followsBase_def\<close>)

lemma registry_rejects_dash_a:
  "\<not> isValid (ParserRegistry_parse (SemverParser examplePolicy) (CalverParser examplePolicy)
        DateBasedParser ''-a'' AUTO)"
proof -
  have n: "numericPattern ''-a'' = None"
    by (simp add: numericPattern_def m_opt_def m_char_def m_plus_cap_def is_digit_def)
  have r: "\<not> canParse (SemverParser examplePolicy) ''-a''"
    "\<not> canParse (CalverParser examplePolicy) ''-a''" "\<not> canParse DateBasedParser ''-a''"
    by (simp_all add: SemverParser_def SemverParser_canParse_def CalverParser_def
        CalverParser_canParse_def DateBasedParser_def DateBasedParser_canParse_def n)
  have d: "\<not> DockerParser_canParse ''-a''"
    by (simp add: DockerParser_canParse_def test_def dockerVersionPattern_eq dockerTagPattern_def
        m_char_def is_v_def is_digit_def is_word_def toLowerCase_def specialTags_def)
  show ?thesis
    by (simp add: autoDetect_docker_last [OF r] d createFailedResult_def)
qed

text \<open>
  The Semver recognizer as modelled agrees with the tests of the recognizer in the
  sources.
\<close>

lemma SemverParser_accepts_tested_tags:
  "list_all (canParse (SemverParser examplePolicy))
     [''v1.2.3'', ''1.2.3'', ''v1.2'', ''1.2'', ''v1.2.3-alpha.1'', ''1.2.3-beta.2'',
      ''v1.2-alpha.1'', ''1.2-beta.2'', ''v1.2.3+build.1'', ''1.2.3+20240115'',
      ''v1.2.3-alpha.1+build.1'']"
  by code_simp

lemma SemverParser_rejects_tested_tags:
  "list_all (\<lambda>tag. \<not> canParse (SemverParser examplePolicy) tag)
     [''v1'', ''1'', ''abc'', ''v1.2.3-'', ''2024.01.15'', ''24.01.15'', ''2024.01'', ''24.01'']"
  by code_simp

lemma SemverParser_parses_tested_tags:
  "parse (SemverParser examplePolicy) ''3.23-d34fa4d2-ls4'' =
     \<lparr>isValid = True, version = ''3.23-d34fa4d2-ls4'',
      info = \<lparr>major = ''3'', minor = ''23'', patch = [], prerelease = ''d34fa4d2-ls4'',
              build = []\<rparr>,
      format = Some SEMVER\<rparr>"
  "parse (SemverParser examplePolicy) ''v1.2.3-alpha.1+build.1'' =
     \<lparr>isValid = True, version = ''v1.2.3-alpha.1+build.1'',
      info = \<lparr>major = ''1'', minor = ''2'', patch = ''3'', prerelease = ''alpha.1'',
              build = ''build.1''\<rparr>,
      format = Some SEMVER\<rparr>"
  "parse (SemverParser examplePolicy) ''invalid'' = createFailedResult ''invalid''"
  by code_simp+

section \<open>Facts about the instance state\<close>

lemma RegExpBuiltinExec_plain:
  assumes "CHR ''g'' \<notin> set flags" and "CHR ''y'' \<notin> set flags"
  shows "RegExpBuiltinExec flags pattern lastIndex S = (pattern S, lastIndex)"
  using assms by (simp add: RegExpBuiltinExec_def split: option.splits)

lemma exec_dockerVersionPattern_pure:
  "exec_dockerVersionPattern st tag = (dockerVersionPattern tag, st)"
  by (simp add: exec_dockerVersionPattern_def RegExpBuiltinExec_plain)

lemma exec_dockerTagPattern_pure:
  "exec_dockerTagPattern st tag = (dockerTagPattern tag, st)"
  by (simp add: exec_dockerTagPattern_def RegExpBuiltinExec_plain)

lemma DockerParser_canParse_st_pure:
  "DockerParser_canParse_st st tag = (DockerParser_canParse tag, st)"
  by (cases "dockerVersionPattern tag")
    (auto simp: DockerParser_canParse_st_def DockerParser_canParse_def Let_def test_def
      exec_dockerVersionPattern_pure exec_dockerTagPattern_pure)

lemma DockerParser_parse_st_pure:
  "DockerParser_parse_st st tag = (DockerParser_parse tag, st)"
  by (cases "dockerVersionPattern tag"; cases "dockerTagPattern tag")
    (auto simp: DockerParser_parse_st_def DockerParser_parse_def Let_def test_def
      exec_dockerVersionPattern_pure exec_dockerTagPattern_pure)

lemma autoDetect_st_pure:
  "autoDetect_st ps st tag = (autoDetect (ps @ [DockerParser]) tag, st)"
  by (induction ps)
    (auto simp: DockerParser_canParse_st_pure DockerParser_parse_st_pure split: bool.splits)

lemma ParserRegistry_parse_st_pure:
  "ParserRegistry_parse_st semver calver dateBased st tag requested =
     (ParserRegistry_parse semver calver dateBased tag requested, st)"
  by (cases requested)
    (simp_all add: ParserRegistry_parse_st_def autoDetect_st_pure ParserRegistry_parse_AUTO
      ParserRegistry_parse_DOCKER ParserRegistry_parse_numeric DockerParser_parse_st_pure)

section \<open>Claims about the Docker recognizer\<close>

text \<open>
  Claim C7. For every tag whose lowercase form is one of \<open>latest\<close>, \<open>stable\<close>, \<open>dev\<close>,
  \<open>test\<close>, \<open>prod\<close>, \<open>production\<close>, \<open>staging\<close>, the Docker recognizer succeeds: the result
  is valid, all five fields of its \<open>VersionInfo\<close> are empty, and its version is the
  original tag with its original casing.
\<close>

theorem docker_special_tag:
  assumes "toLowerCase tag \<in> set specialTags"
  shows "isValid (DockerParser_parse tag) \<and> format (DockerParser_parse tag) = Some DOCKER \<and>
     major (info (DockerParser_parse tag)) = [] \<and> minor (info (DockerParser_parse tag)) = [] \<and>
     patch (info (DockerParser_parse tag)) = [] \<and>
     prerelease (info (DockerParser_parse tag)) = [] \<and>
     build (info (DockerParser_parse tag)) = [] \<and> version (DockerParser_parse tag) = tag"
  by (simp add: DockerParser_parse_special [OF assms])

theorem docker_special_tag_witness:
  "toLowerCase ''LaTest'' \<in> set specialTags \<and> isValid (DockerParser_parse ''LaTest'') \<and>
     info (DockerParser_parse ''LaTest'') = emptyVersionInfo \<and>
     version (DockerParser_parse ''LaTest'') = ''LaTest''"
proof -
  have h: "toLowerCase ''LaTest'' \<in> set specialTags"
    by (simp add: toLowerCase_def toLowerCase_char_def specialTags_def)
  from docker_special_tag [OF h] h show ?thesis
    by (simp add: emptyVersionInfo_def VersionInfo.equality)
qed

text \<open>
  Claim C10. For every tag, the result of \<open>parse\<close> of the Docker recognizer is valid if and
  only if its \<open>canParse\<close> accepts the tag.
\<close>

theorem docker_parse_iff_canParse:
  "isValid (DockerParser_parse tag) = DockerParser_canParse tag"
  by (simp add: DockerParser_parse_valid_iff DockerParser_canParse_def)

text \<open>
  Claim C8. For every tag that matches the general tag grammar and is neither a special
  tag nor version-like, the Docker recognizer succeeds with major, minor, patch and build
  empty. Its version is the part of the tag before the first \<open>-\<close> (the whole tag when
  there is none) and its prerelease is the part after the first \<open>-\<close> (empty when there is
  none). For \<open>my-custom-tag-v2\<close> the version is \<open>my\<close> and the prerelease \<open>custom-tag-v2\<close>.
\<close>

theorem docker_opaque_tag:
  assumes "test dockerTagPattern tag" and "toLowerCase tag \<notin> set specialTags"
    and "\<not> test dockerVersionPattern tag"
  shows "isValid (DockerParser_parse tag) \<and>
     major (info (DockerParser_parse tag)) = [] \<and> minor (info (DockerParser_parse tag)) = [] \<and>
     patch (info (DockerParser_parse tag)) = [] \<and> build (info (DockerParser_parse tag)) = [] \<and>
     (CHR ''-'' \<notin> set tag \<longrightarrow>
        version (DockerParser_parse tag) = tag \<and> prerelease (info (DockerParser_parse tag)) = []) \<and>
     (\<forall>root rest. tag = root @ ''-'' @ rest \<and> CHR ''-'' \<notin> set root \<longrightarrow>
        version (DockerParser_parse tag) = root \<and>
        prerelease (info (DockerParser_parse tag)) = rest)"
proof -
  from assms(3) have nv: "dockerVersionPattern tag = None"
    unfolding test_def by blast
  let ?r = "DockerParser_parse tag" and ?P = "\<lambda>c. c \<noteq> CHR ''-''"
  note r = DockerParser_parse_opaque [OF assms(2) nv assms(1)]
  have ver: "version ?r = takeWhile ?P tag"
    and pre: "prerelease (info ?r) = drop 1 (dropWhile ?P tag)"
    and fields: "isValid ?r" "major (info ?r) = []" "minor (info ?r) = []"
      "patch (info ?r) = []" "build (info ?r) = []"
    by (simp_all add: r)
  have whole: "version ?r = tag \<and> prerelease (info ?r) = []" if "CHR ''-'' \<notin> set tag"
  proof -
    from that have tw: "takeWhile ?P tag = tag" and dw: "dropWhile ?P tag = []"
      by (induction tag) auto
    show ?thesis
      unfolding ver pre tw dw by simp
  qed
  have parts: "version ?r = root \<and> prerelease (info ?r) = rest"
    if "tag = root @ ''-'' @ rest" and "CHR ''-'' \<notin> set root" for root rest
  proof -
    have tw: "takeWhile ?P tag = root" and dw: "drop 1 (dropWhile ?P tag) = rest"
      unfolding that(1) using split_at_first [OF that(2), of rest] by simp_all
    show ?thesis
      unfolding ver pre tw dw by simp
  qed
  from fields whole parts show ?thesis
    by blast
qed

theorem docker_opaque_tag_witness:
  "test dockerTagPattern ''my-custom-tag-v2'' \<and>
   toLowerCase ''my-custom-tag-v2'' \<notin> set specialTags \<and>
   \<not> test dockerVersionPattern ''my-custom-tag-v2'' \<and>
   isValid (DockerParser_parse ''my-custom-tag-v2'') \<and>
   version (DockerParser_parse ''my-custom-tag-v2'') = ''my'' \<and>
   prerelease (info (DockerParser_parse ''my-custom-tag-v2'')) = ''custom-tag-v2''"
proof -
  have h1: "test dockerTagPattern ''my-custom-tag-v2''"
    by (simp add: dockerTagPattern_eq is_word_def is_word_dot_dash_def)
  have h2: "toLowerCase ''my-custom-tag-v2'' \<notin> set specialTags"
    by (simp add: toLowerCase_def specialTags_def)
  have h3: "\<not> test dockerVersionPattern ''my-custom-tag-v2''"
    by (simp add: test_def dockerVersionPattern_eq is_v_def is_digit_def)
  note t = docker_opaque_tag [OF h1 h2 h3]
  from t have v: "isValid (DockerParser_parse ''my-custom-tag-v2'')"
    by (rule conjunct1)
  from t have "''my-custom-tag-v2'' = ''my'' @ ''-'' @ ''custom-tag-v2'' \<and> CHR ''-'' \<notin> set ''my'' \<longrightarrow>
      version (DockerParser_parse ''my-custom-tag-v2'') = ''my'' \<and>
      prerelease (info (DockerParser_parse ''my-custom-tag-v2'')) = ''custom-tag-v2''"
    by blast
  then show ?thesis
    using h1 h2 h3 v by simp
qed

text \<open>
  Claim C6. Every version-like tag \<open>v?MAJOR[.MINOR[.PATCH]][-SUFFIX]\<close> is to be parsed with
  a version of three dotted components, an absent patch defaulted to \<open>0\<close>, the leading \<open>v\<close>
  dropped and \<open>-SUFFIX\<close> appended. For a tag without minor the code does not deliver this:
  \<open>reconstructVersion\<close> defaults the patch only, so the version of \<open>v1\<close> is \<open>1..0\<close>, whose
  middle component is empty, and the version of \<open>1-alpine\<close> is \<open>1..0-alpine\<close>.
\<close>

theorem docker_absent_minor_empty_component:
  "isValid (DockerParser_parse ''v1'') \<and>
   version (DockerParser_parse ''v1'') = ''1..0'' \<and>
   splitOn CHR ''.'' (version (DockerParser_parse ''v1'')) = [''1'', [], ''0''] \<and>
   isValid (DockerParser_parse ''1-alpine'') \<and>
   version (DockerParser_parse ''1-alpine'') = ''1..0-alpine''"
  by (simp add: DockerParser_parse_v1 DockerParser_parse_1_alpine)

text \<open>
  Claim C4, as amended. The recognizer tries the version pattern, which has no length
  bound, before the general tag grammar. Every tag that contains a character outside
  \<open>[A-Za-z0-9_.-]\<close>, or whose first character is outside \<open>[A-Za-z0-9_]\<close>, or that is
  longer than 128 characters and does not match the version pattern, is rejected: the
  result is not valid and its version is the original tag.
\<close>

theorem docker_rejects_grammar_violation:
  assumes "(\<exists>c \<in> set tag. \<not> is_word_dot_dash c) \<or> (tag \<noteq> [] \<and> \<not> is_word (hd tag))
     \<or> (128 < length tag \<and> \<not> test dockerVersionPattern tag)"
  shows "isValid (DockerParser_parse tag) = False \<and> version (DockerParser_parse tag) = tag"
proof -
  have tagp: "\<not> test dockerTagPattern tag"
    using assms bad_char_fails_tag_grammar [of tag] by (auto simp: dockerTagPattern_eq)
  then have ns: "toLowerCase tag \<notin> set specialTags"
    using special_matches_tag_grammar by blast
  have nv: "dockerVersionPattern tag = None"
  proof (rule ccontr)
    assume m: "dockerVersionPattern tag \<noteq> None"
    from versionLike_tagchars [OF m] versionLike_head [OF m] assms m show False
      by (auto simp: list_all_iff test_def)
  qed
  show ?thesis
    by (simp add: DockerParser_parse_rejected [OF ns nv tagp] createFailedResult_def)
qed

theorem docker_rejects_grammar_violation_witness:
  "(\<exists>c \<in> set ''my tag''. \<not> is_word_dot_dash c) \<and>
   isValid (DockerParser_parse ''my tag'') = False \<and>
   version (DockerParser_parse ''my tag'') = ''my tag'' \<and>
   128 < length (replicate 129 CHR ''a'') \<and>
   \<not> test dockerVersionPattern (replicate 129 CHR ''a'') \<and>
   isValid (DockerParser_parse (replicate 129 CHR ''a'')) = False \<and>
   version (DockerParser_parse (replicate 129 CHR ''a'')) = replicate 129 CHR ''a''"
proof -
  have h: "\<exists>c \<in> set ''my tag''. \<not> is_word_dot_dash c"
    by (simp add: is_word_dot_dash_def is_word_def)
  have l: "128 < length (replicate 129 CHR ''a'')"
    by simp
  have "hd (replicate 129 CHR ''a'') = CHR ''a''" and "replicate 129 CHR ''a'' \<noteq> []"
    by simp_all
  then have n: "\<not> test dockerVersionPattern (replicate 129 CHR ''a'')"
    by (simp add: test_def dockerVersionPattern_eq is_v_def is_digit_def)
  from docker_rejects_grammar_violation [of "''my tag''"]
    docker_rejects_grammar_violation [of "replicate 129 CHR ''a''"] h l n
  show ?thesis
    by blast
qed

text \<open>
  Claim C4 as stated fails for a version-like tag of more than 128 characters: the tag
  \<open>1.0.0-\<close> followed by 123 times \<open>a\<close> has 129 characters and is parsed successfully.
\<close>

theorem docker_overlong_version_tag_counterexample:
  "128 < length (''1.0.0-'' @ replicate 123 CHR ''a'') \<and>
   isValid (DockerParser_parse (''1.0.0-'' @ replicate 123 CHR ''a'')) \<and>
   \<not> (isValid (DockerParser_parse (''1.0.0-'' @ replicate 123 CHR ''a'')) = False \<and>
      version (DockerParser_parse (''1.0.0-'' @ replicate 123 CHR ''a'')) =
        ''1.0.0-'' @ replicate 123 CHR ''a'')"
proof -
  have v: "isValid (DockerParser_parse (''1.0.0-'' @ replicate 123 CHR ''a''))"
    unfolding DockerParser_parse_versionLike [OF overlong_version_tag] by simp
  have l: "128 < length (''1.0.0-'' @ replicate 123 CHR ''a'')"
    by simp
  from v l show ?thesis
    by blast
qed

section \<open>Claims about the registry\<close>

text \<open>
  Claim C1, as amended. \<open>parse("v1", AUTO)\<close> is not a failure. Once the Semver, Calver and
  DateBased recognizers have rejected the bare single-component tag, the Docker
  recognizer, probed last, accepts it as a version-like tag: the result is valid, its
  format is \<open>DOCKER\<close>, its major is \<open>1\<close> and its minor, patch, prerelease and build are
  empty.
\<close>

theorem auto_v1_is_claimed_by_docker:
  assumes "\<not> canParse semver ''v1''" and "\<not> canParse calver ''v1''"
    and "\<not> canParse dateBased ''v1''"
  shows "DockerParser_canParse ''v1'' \<and>
     isValid (ParserRegistry_parse semver calver dateBased ''v1'' AUTO) \<and>
     format (ParserRegistry_parse semver calver dateBased ''v1'' AUTO) = Some DOCKER \<and>
     info (ParserRegistry_parse semver calver dateBased ''v1'' AUTO) =
       \<lparr>major = ''1'', minor = [], patch = [], prerelease = [], build = []\<rparr>"
  by (simp add: registry_v1 [OF assms] DockerParser_canParse_v1)

theorem auto_v1_is_claimed_by_docker_witness:
  "\<not> canParse (SemverParser examplePolicy) ''v1'' \<and>
   \<not> canParse (CalverParser examplePolicy) ''v1'' \<and>
   \<not> canParse DateBasedParser ''v1'' \<and>
   isValid (ParserRegistry_parse (SemverParser examplePolicy) (CalverParser examplePolicy)
       DateBasedParser ''v1'' AUTO) \<and>
   format (ParserRegistry_parse (SemverParser examplePolicy) (CalverParser examplePolicy)
       DateBasedParser ''v1'' AUTO) = Some DOCKER \<and>
   info (ParserRegistry_parse (SemverParser examplePolicy) (CalverParser examplePolicy)
       DateBasedParser ''v1'' AUTO) =
     \<lparr>major = ''1'', minor = [], patch = [], prerelease = [], build = []\<rparr>"
proof -
  note h = numeric_reject_v1(1) [of examplePolicy] numeric_reject_v1(2) [of examplePolicy]
    numeric_reject_v1(3)
  from h auto_v1_is_claimed_by_docker [OF h] show ?thesis
    by blast
qed

text \<open>
  Claim C1 as stated fails: the \<open>canParse\<close> of the Docker recognizer accepts \<open>v1\<close>, and the
  result for \<open>v1\<close> under \<open>AUTO\<close> is not the failure result.
\<close>

theorem auto_v1_counterexample:
  "DockerParser_canParse ''v1'' \<and>
   \<not> (isValid (ParserRegistry_parse (SemverParser examplePolicy) (CalverParser examplePolicy)
           DateBasedParser ''v1'' AUTO) = False \<and>
      version (ParserRegistry_parse (SemverParser examplePolicy) (CalverParser examplePolicy)
           DateBasedParser ''v1'' AUTO) = ''v1'' \<and>
      format (ParserRegistry_parse (SemverParser examplePolicy) (CalverParser examplePolicy)
           DateBasedParser ''v1'' AUTO) = None)"
  by (simp add: registry_v1 [OF numeric_reject_v1] DockerParser_canParse_v1)

text \<open>
  Claim C3, as amended. \<open>parse("v1.2.3-", AUTO)\<close> is not a failure. Once the Semver,
  Calver and DateBased recognizers have rejected the tag with the trailing dash, the
  Docker recognizer, probed last, accepts it as an opaque tag: the result is valid, its
  format is \<open>DOCKER\<close>, its version is the root \<open>v1.2.3\<close> before the dash, and all
  fields are empty.
\<close>

theorem auto_trailing_dash_is_claimed_by_docker:
  assumes "\<not> canParse semver ''v1.2.3-''" and "\<not> canParse calver ''v1.2.3-''"
    and "\<not> canParse dateBased ''v1.2.3-''"
  shows "ParserRegistry_parse semver calver dateBased ''v1.2.3-'' AUTO =
     \<lparr>isValid = True, version = ''v1.2.3'',
      info = \<lparr>major = [], minor = [], patch = [], prerelease = [], build = []\<rparr>,
      format = Some DOCKER\<rparr>"
  using assms by (rule registry_v123dash)

theorem auto_trailing_dash_is_claimed_by_docker_witness:
  "\<not> canParse (SemverParser examplePolicy) ''v1.2.3-'' \<and>
   \<not> canParse (CalverParser examplePolicy) ''v1.2.3-'' \<and>
   \<not> canParse DateBasedParser ''v1.2.3-'' \<and>
   ParserRegistry_parse (SemverParser examplePolicy) (CalverParser examplePolicy)
       DateBasedParser ''v1.2.3-'' AUTO =
     \<lparr>isValid = True, version = ''v1.2.3'',
      info = \<lparr>major = [], minor = [], patch = [], prerelease = [], build = []\<rparr>,
      format = Some DOCKER\<rparr>"
proof -
  note h = numeric_reject_v123dash(1) [of examplePolicy]
    numeric_reject_v123dash(2) [of examplePolicy] numeric_reject_v123dash(3)
  from h auto_trailing_dash_is_claimed_by_docker [OF h] show ?thesis
    by blast
qed

text \<open>
  Claim C3 as stated fails: the \<open>canParse\<close> of the Docker recognizer accepts \<open>v1.2.3-\<close>,
  and the result for it under \<open>AUTO\<close> is valid with a version other than the tag.
\<close>

theorem auto_trailing_dash_counterexample:
  "DockerParser_canParse ''v1.2.3-'' \<and>
   \<not> (isValid (ParserRegistry_parse (SemverParser examplePolicy) (CalverParser examplePolicy)
           DateBasedParser ''v1.2.3-'' AUTO) = False \<and>
      version (ParserRegistry_parse (SemverParser examplePolicy) (CalverParser examplePolicy)
           DateBasedParser ''v1.2.3-'' AUTO) = ''v1.2.3-'')"
  by (simp add: registry_v123dash [OF numeric_reject_v123dash] DockerParser_v123dash(1))

text \<open>
  Claim C2. For every tag \<open>t\<close> and every scheme selector \<open>s\<close>: when the result of
  \<open>parse(t, s)\<close> is not valid, its version is \<open>t\<close> and every field of its \<open>VersionInfo\<close> is
  empty. The Semver, Calver and DateBased recognizers are taken to be built on the base
  helpers; for the Docker recognizer this is proved from its code.
\<close>

theorem registry_echo_on_failure:
  assumes "followsBase semver" and "followsBase calver" and "followsBase dateBased"
    and "\<not> isValid (ParserRegistry_parse semver calver dateBased t s)"
  shows "version (ParserRegistry_parse semver calver dateBased t s) = t \<and>
     major (info (ParserRegistry_parse semver calver dateBased t s)) = [] \<and>
     minor (info (ParserRegistry_parse semver calver dateBased t s)) = [] \<and>
     patch (info (ParserRegistry_parse semver calver dateBased t s)) = [] \<and>
     prerelease (info (ParserRegistry_parse semver calver dateBased t s)) = [] \<and>
     build (info (ParserRegistry_parse semver calver dateBased t s)) = []"
proof -
  from registry_followsBase [OF assms(1-3), of t s] assms(4)
  have "ParserRegistry_parse semver calver dateBased t s = createFailedResult t"
    by simp
  then show ?thesis
    by (simp add: createFailedResult_def emptyVersionInfo_def)
qed

theorem registry_echo_on_failure_witness:
  "followsBase (SemverParser examplePolicy) \<and> followsBase (CalverParser examplePolicy) \<and>
   followsBase DateBasedParser \<and>
   \<not> isValid (ParserRegistry_parse (SemverParser examplePolicy) (CalverParser examplePolicy)
        DateBasedParser ''-a'' AUTO) \<and>
   version (ParserRegistry_parse (SemverParser examplePolicy) (CalverParser examplePolicy)
        DateBasedParser ''-a'' AUTO) = ''-a'' \<and>
   info (ParserRegistry_parse (SemverParser examplePolicy) (CalverParser examplePolicy)
        DateBasedParser ''-a'' AUTO) = emptyVersionInfo"
proof -
  note b = followsBase_numeric(1) [of examplePolicy] followsBase_numeric(2) [of examplePolicy]
    followsBase_numeric(3)
  from b registry_rejects_dash_a registry_echo_on_failure [OF b registry_rejects_dash_a]
  show ?thesis
    by (simp add: emptyVersionInfo_def VersionInfo.equality)
qed

text \<open>
  Claim C9. \<open>parse(t, s)\<close> is deterministic. A call neither reads nor changes the state of
  the instance: from any two states the results for the same tag and selector are
  equal, the state after the call is the state before it, and a second call returns
  what the first one did. The same holds for \<open>canParse\<close> and \<open>parse\<close> of the Docker
  recognizer.
\<close>

theorem registry_parse_deterministic:
  "fst (ParserRegistry_parse_st semver calver dateBased st1 t s) =
     fst (ParserRegistry_parse_st semver calver dateBased st2 t s) \<and>
   snd (ParserRegistry_parse_st semver calver dateBased st1 t s) = st1 \<and>
   fst (ParserRegistry_parse_st semver calver dateBased
          (snd (ParserRegistry_parse_st semver calver dateBased st1 t s)) t s) =
     fst (ParserRegistry_parse_st semver calver dateBased st1 t s) \<and>
   fst (DockerParser_canParse_st st1 t) = fst (DockerParser_canParse_st st2 t) \<and>
   snd (DockerParser_canParse_st st1 t) = st1 \<and>
   fst (DockerParser_parse_st st1 t) = fst (DockerParser_parse_st st2 t) \<and>
   snd (DockerParser_parse_st st1 t) = st1"
  by (simp add: ParserRegistry_parse_st_pure DockerParser_canParse_st_pure
      DockerParser_parse_st_pure)

end
